theory Spec2Isabelle
  imports Main
begin

section \<open>Python values and errors\<close>

text \<open>
  The exceptions that \<open>xla.py\<close> raises, carried as values. Each constructor holds the
  message text where the source builds one.
\<close>

datatype error =
    TypeError string
  | ValueError string
  | RuntimeError string
  | NotImplementedError string
  | UserError string

subsection \<open>Decimal formatting (\<open>%d\<close>)\<close>

fun string_of_nat :: "nat \<Rightarrow> string" where
  "string_of_nat n =
     (if n < 10 then [char_of (48 + n)]
      else string_of_nat (n div 10) @ [char_of (48 + n mod 10)])"

declare string_of_nat.simps [simp del]

definition string_of_int :: "int \<Rightarrow> string" where
  "string_of_int i = (if i < 0 then CHR ''-'' # string_of_nat (nat (- i)) else string_of_nat (nat i))"

subsection \<open>Graph values\<close>

text \<open>
  A \<open>Tensor\<close> as this module reads it: its unique name, its device string and whether
  its dtype is a reference dtype. An \<open>Operation\<close> with the members the module touches:
  type, name, data inputs, outputs, control inputs, the attributes of its node definition
  and its control-flow context, written as the chain of context identities from the
  owning context outwards (\<open>_get_control_flow_context()\<close> followed by the
  \<open>_outer_context\<close> links).
\<close>

record tensor =
  tensor_name :: string
  device :: string
  is_ref_dtype :: bool

datatype operation = Operation
  (op_type: string)
  (op_name: string)
  (inputs: "tensor list")
  (outputs: "tensor list")
  (control_inputs: "operation list")
  (node_def_attr: "(string \<times> string) list")
  (control_flow_context: "nat list")

text \<open>
  The Python objects that reach the module as inputs, outputs or captured objects.
  \<open>PObject\<close> is any other object (a function, a scaffold, a user class instance).
\<close>

datatype pyval =
    PNone
  | PInt int
  | PStr string
  | PTensor tensor
  | POperation operation
  | PObject string
  | PList "pyval list"
  | PTuple "pyval list"
  | PDict "(string \<times> pyval) list"

text \<open>
  Python's truth test \<open>if o:\<close>. \<open>None\<close>, zero and empty containers are false, other
  objects are true; the truth value of a graph-mode \<open>Tensor\<close> is a \<open>TypeError\<close>.
\<close>

fun truth_value :: "pyval \<Rightarrow> error + bool" where
  "truth_value PNone = Inr False"
| "truth_value (PInt i) = Inr (i \<noteq> 0)"
| "truth_value (PStr s) = Inr (s \<noteq> [])"
| "truth_value (PTensor t) = Inl (TypeError ''Using a `tf.Tensor` as a Python `bool` is not allowed.'')"
| "truth_value (POperation x) = Inr True"
| "truth_value (PObject x) = Inr True"
| "truth_value (PList xs) = Inr (xs \<noteq> [])"
| "truth_value (PTuple xs) = Inr (xs \<noteq> [])"
| "truth_value (PDict kvs) = Inr (kvs \<noteq> [])"

section \<open>Captured objects\<close>

text \<open>\<open>_CapturedObject\<close>: one field \<open>_object\<close>, \<open>None\<close> after construction.\<close>

record captured_object =
  object :: pyval

definition new_captured_object :: captured_object where
  "new_captured_object = \<lparr>object = PNone\<rparr>"

text \<open>
  \<open>capture\<close> returns the raised exception, if any, together with the object's state after
  the call.
\<close>

definition capture :: "captured_object \<Rightarrow> pyval \<Rightarrow> error option \<times> captured_object" where
  "capture self o' =
     (case truth_value (object self) of
        Inl e \<Rightarrow> (Some e, self)
      | Inr True \<Rightarrow>
          (Some (RuntimeError
             ''InternalError: _CapturedObject can capture only once. Please file bug.''), self)
      | Inr False \<Rightarrow> (None, self\<lparr>object := o'\<rparr>))"

definition get :: "captured_object \<Rightarrow> pyval" where
  "get self = object self"

section \<open>Arity checker\<close>

text \<open>
  What \<open>tf_inspect.getargspec(func)\<close> hands to \<open>check_function_argument_count\<close>: the
  declared positional parameters, the defaults tuple (\<open>None\<close> when the function declares
  no default) and the name of the \<open>*args\<close> parameter (\<open>None\<close> when there is none).
\<close>

record arg_spec =
  args :: "string list"
  defaults :: "nat option"
  varargs :: "string option"

text \<open>The infeed queue is only asked for its \<open>number_of_tuple_elements\<close>.\<close>

record infeed_queue =
  number_of_tuple_elements :: int

definition format_error :: "string \<Rightarrow> int \<Rightarrow> string" where
  "format_error complaint quantity =
     complaint @ '' '' @ string_of_int quantity @ '' argument'' @ (if quantity = 1 then '''' else ''s'')"

definition num_args_supplied :: "int \<Rightarrow> infeed_queue option \<Rightarrow> int" where
  "num_args_supplied input_arity q =
     (case q of None \<Rightarrow> input_arity | Some iq \<Rightarrow> input_arity + number_of_tuple_elements iq)"

definition num_func_args :: "arg_spec \<Rightarrow> int" where
  "num_func_args sp = int (length (args sp))"

definition num_func_defaults :: "arg_spec \<Rightarrow> int" where
  "num_func_defaults sp = (case defaults sp of None \<Rightarrow> 0 | Some d \<Rightarrow> int d)"

definition min_func_args :: "arg_spec \<Rightarrow> int" where
  "min_func_args sp = num_func_args sp - num_func_defaults sp"

definition check_function_argument_count ::
  "arg_spec \<Rightarrow> int \<Rightarrow> infeed_queue option \<Rightarrow> string option" where
  "check_function_argument_count sp input_arity q =
     (let supplied = num_args_supplied input_arity q in
      if supplied < min_func_args sp then
        (if num_func_defaults sp = 0 \<and> varargs sp = None
         then Some (format_error ''exactly'' (num_func_args sp))
         else Some (format_error ''at least'' (min_func_args sp)))
      else if varargs sp = None \<and> supplied > num_func_args sp then
        (if num_func_defaults sp = 0
         then Some (format_error ''exactly'' (num_func_args sp))
         else Some (format_error ''at most'' (num_func_args sp)))
      else None)"

text \<open>
  The message as the specification words it, with the noun always in the plural:
  \<open>"<complaint> N arguments"\<close>.
\<close>

definition spec_message :: "string \<Rightarrow> int \<Rightarrow> string" where
  "spec_message complaint quantity = complaint @ '' '' @ string_of_int quantity @ '' arguments''"

section \<open>Properties of the arity checker\<close>

text \<open>
  C1 (amended). \<open>check_function_argument_count\<close> returns \<open>None\<close> exactly when the
  number of supplied arguments (\<open>input_arity\<close> plus the queue's
  \<open>number_of_tuple_elements\<close> when a queue is given) is at least the declared parameters
  minus the defaults and, unless the function takes varargs, at most the declared
  parameters. Otherwise the message is "exactly N" when there are neither defaults nor
  varargs, "at least N" when too few were supplied, "at most N" when too many were. The
  message ends in "arguments" when N differs from 1 and in "argument" when N is 1.
\<close>

theorem check_function_argument_count_cases:
  "check_function_argument_count sp input_arity q =
     (let supplied = num_args_supplied input_arity q in
      if min_func_args sp \<le> supplied \<and> (varargs sp = None \<longrightarrow> supplied \<le> num_func_args sp)
      then None
      else if num_func_defaults sp = 0 \<and> varargs sp = None
      then Some (format_error ''exactly'' (num_func_args sp))
      else if supplied < min_func_args sp
      then Some (format_error ''at least'' (min_func_args sp))
      else Some (format_error ''at most'' (num_func_args sp)))
   \<and> (quantity \<noteq> 1 \<longrightarrow> format_error complaint quantity = spec_message complaint quantity)
   \<and> format_error complaint 1 = complaint @ '' 1 argument''"
proof -
  have one: "string_of_int 1 = ''1''"
    by code_simp
  have "min_func_args sp \<le> num_func_args sp" if "num_func_defaults sp = 0"
    using that by (simp add: min_func_args_def)
  then show ?thesis
    by (auto simp: check_function_argument_count_def Let_def format_error_def spec_message_def one)
qed

text \<open>
  The examples of the specification: a function \<open>(a, b, c=1)\<close> called with 2, 1 and 5
  explicit arguments, and a function \<open>(a, b, *rest)\<close> fed 3 explicit arguments and 4 from
  an infeed queue.
\<close>

theorem check_function_argument_count_cases_witness:
  "check_function_argument_count \<lparr>args = [''a'', ''b'', ''c''], defaults = Some 1, varargs = None\<rparr> 2 None = None
   \<and> check_function_argument_count \<lparr>args = [''a'', ''b'', ''c''], defaults = Some 1, varargs = None\<rparr> 1 None
       = Some ''at least 2 arguments''
   \<and> check_function_argument_count \<lparr>args = [''a'', ''b'', ''c''], defaults = Some 1, varargs = None\<rparr> 5 None
       = Some ''at most 3 arguments''
   \<and> check_function_argument_count \<lparr>args = [''a'', ''b''], defaults = None, varargs = Some ''rest''\<rparr> 3
         (Some \<lparr>number_of_tuple_elements = 4\<rparr>) = None"
proof -
  have s2: "string_of_int 2 = ''2''" and s3: "string_of_int 3 = ''3''"
    by code_simp+
  show ?thesis
    using check_function_argument_count_cases
            [of "\<lparr>args = [''a'', ''b'', ''c''], defaults = Some 1, varargs = None\<rparr>" 2 None 2 "''at least''"]
          check_function_argument_count_cases
            [of "\<lparr>args = [''a'', ''b'', ''c''], defaults = Some 1, varargs = None\<rparr>" 1 None 3 "''at most''"]
          check_function_argument_count_cases
            [of "\<lparr>args = [''a'', ''b'', ''c''], defaults = Some 1, varargs = None\<rparr>" 5 None 3 "''at most''"]
          check_function_argument_count_cases
            [of "\<lparr>args = [''a'', ''b''], defaults = None, varargs = Some ''rest''\<rparr>" 3
                "Some \<lparr>number_of_tuple_elements = 4\<rparr>" 3 "''at most''"]
    by (simp add: num_args_supplied_def min_func_args_def num_func_args_def num_func_defaults_def
          spec_message_def s2 s3)
qed

text \<open>
  The claim as worded, with "arguments" for every N, fails for a one-parameter function
  \<open>(a)\<close> called with no argument: the checker answers "exactly 1 argument".
\<close>

theorem check_function_argument_count_singular:
  "check_function_argument_count \<lparr>args = [''a''], defaults = None, varargs = None\<rparr> 0 None
     = Some ''exactly 1 argument''
   \<and> check_function_argument_count \<lparr>args = [''a''], defaults = None, varargs = None\<rparr> 0 None
     \<noteq> Some (spec_message ''exactly'' 1)"
  by code_simp

section \<open>Properties of captured objects\<close>

text \<open>
  C10. A fresh \<open>_CapturedObject\<close> returns \<open>None\<close> from \<open>get\<close>. Capturing a truthy
  object in it succeeds and \<open>get\<close> then returns that object; every later \<open>capture\<close>
  raises \<open>RuntimeError\<close> and leaves the stored object as it was.
\<close>

theorem captured_object_once:
  assumes "truth_value v = Inr True"
  shows "get new_captured_object = PNone
    \<and> fst (capture new_captured_object v) = None
    \<and> get (snd (capture new_captured_object v)) = v
    \<and> fst (capture (snd (capture new_captured_object v)) v') =
          Some (RuntimeError ''InternalError: _CapturedObject can capture only once. Please file bug.'')
    \<and> get (snd (capture (snd (capture new_captured_object v)) v')) = v"
  using assms by (simp add: capture_def get_def new_captured_object_def)

theorem captured_object_once_witness:
  "truth_value (PObject ''scaffold_fn'') = Inr True
   \<and> get (snd (capture new_captured_object (PObject ''scaffold_fn''))) = PObject ''scaffold_fn''
   \<and> fst (capture (snd (capture new_captured_object (PObject ''scaffold_fn''))) (PInt 7)) =
          Some (RuntimeError ''InternalError: _CapturedObject can capture only once. Please file bug.'')
   \<and> get (snd (capture (snd (capture new_captured_object (PObject ''scaffold_fn''))) (PInt 7)))
        = PObject ''scaffold_fn''"
proof -
  have h: "truth_value (PObject ''scaffold_fn'') = Inr True"
    by simp
  show ?thesis
    using h captured_object_once [OF h, of "PInt 7"] by simp
qed

end
